theory Spec2Isabelle
  imports Main "HOL-Library.Sublist"
begin

section \<open>Data model of dvc-availability-alerts.py\<close>

text \<open>
  The script polls an availability API, filters the answer with pandas, and notifies
  through Pushover when the rendered result differs from the one kept in SQLite.
  Strings are lists of 8-bit characters and stand for ASCII text: letters are compared
  without case on the 52 ASCII letters.
\<close>

text \<open>
  Exceptions the script never catches, each of which unwinds through \<open>main\<close>: KeyError
  from the column selection of line 71, the errors of \<open>requests.get\<close>, \<open>response.json\<close>
  and \<open>send_message\<close>, and \<open>re.error\<close> from a filter that does not compile.
\<close>

datatype exn =
    KeyError
  | ConnectionError
  | JSONDecodeError
  | PushoverError
  | ReError

text \<open>
  One value of the JSON object answered by the API. A field is \<open>None\<close> when the key is
  missing or null. \<open>e_Availability\<close> is \<open>None\<close> when the key \<open>Availability\<close> is missing
  (the code then reads \<open>{}\<close>), otherwise the \<open>availability\<close> member of the nested object.
\<close>

record entry =
  e_ResortName :: "string option"
  e_RoomType :: "string option"
  e_ViewType :: "string option"
  e_Points :: "int option"
  e_Availability :: "string option option"

text \<open>One row of the DataFrame built at lines 58-68.\<close>

record row =
  ResortName :: "string option"
  RoomType :: "string option"
  ViewType :: "string option"
  Points :: "int option"
  Availability :: "string option"

text \<open>What \<open>requests.get\<close> gives: it raises, or answers with a status code and a body
  (\<open>None\<close> when the body is not JSON, so that \<open>response.json()\<close> raises).\<close>

datatype http_result =
    ConnectionFailed
  | Response nat "entry list option"

record pushover_config =
  user_key :: string
  api_token :: string

text \<open>
  One element of \<open>alerts\<close> in the YAML file. Optional keys are options. For \<open>name\<close>
  the two ways of having no string differ at line 112: \<open>None\<close> is the key absent, which
  \<open>dict.get\<close> replaces by the default, and \<open>Some None\<close> is the key present with a null
  value, which \<open>dict.get\<close> returns as Python's \<open>None\<close>.
\<close>

record alert_config =
  name :: "string option option"
  start_date :: string
  end_date :: string
  room_type :: "string option"
  exclude_non_wdw :: "bool option"
  resort_names :: "string list option"
  pushover :: "pushover_config option"

text \<open>
  The collaborators that are not in the repository: the calendar conversion
  \<open>datetime.strptime(s, "%Y-%m-%d").strftime("%Y%m%d")\<close> (\<open>None\<close> is ValueError), the HTTP
  service, pandas' \<open>DataFrame.to_string(index=False)\<close>, the Pushover transport (\<open>False\<close>
  when \<open>send_message\<close> raises), the clock, and the regular expression engine on the
  patterns that have a special character other than the bar (\<open>None\<close> when \<open>re.compile\<close>
  raises \<open>re.error\<close>, otherwise what \<open>search\<close> answers on a subject). Every theorem holds
  for all of them.
\<close>

record env =
  strptime_strftime :: "string \<Rightarrow> string option"
  requests_get :: "string \<Rightarrow> http_result"
  to_string :: "row list \<Rightarrow> string"
  send_message :: "pushover_config \<Rightarrow> string \<Rightarrow> string \<Rightarrow> bool"
  now :: string
  re_engine :: "string \<Rightarrow> (string \<Rightarrow> bool) option"

text \<open>
  What the script changes: the table \<open>alerts\<close>, the lines printed, and the calls made
  to \<open>client.send_message\<close> (configuration, message, title). The rows of the table whose
  \<open>alert_name\<close> is a string are the map \<open>db\<close>, one row per name (primary key). SQLite
  admits NULL in this primary key, and NULL is equal to nothing: such rows are never
  selected and never in conflict, so each write adds one; \<open>null_rows\<close> are their values.
\<close>

record world =
  db :: "string \<rightharpoonup> string"
  null_rows :: "string list"
  printed :: "string list"
  dispatched :: "(pushover_config \<times> string \<times> string) list"

text \<open>A function returns a string (the reported failure) or a DataFrame.\<close>

datatype ret = Str string | DataFrame "row list"

datatype outcome = Returned | Raised exn

datatype loop_status = Still_running | Aborted exn

section \<open>Result Store (lines 25-38)\<close>

text \<open>The key is the value bound to the parameter: \<open>None\<close> is bound as NULL.\<close>

definition fetch_last_result :: "world \<Rightarrow> string option \<Rightarrow> string option" where
  "fetch_last_result conn alert_name =
     (case alert_name of None \<Rightarrow> None | Some n \<Rightarrow> db conn n)"

definition update_last_result :: "world \<Rightarrow> string option \<Rightarrow> string \<Rightarrow> world" where
  "update_last_result conn alert_name result_str =
     (case alert_name of
        None \<Rightarrow> conn\<lparr>null_rows := null_rows conn @ [result_str]\<rparr>
      | Some n \<Rightarrow> conn\<lparr>db := (db conn)(n \<mapsto> result_str)\<rparr>)"

definition print :: "string \<Rightarrow> world \<Rightarrow> world" where
  "print s w = w\<lparr>printed := printed w @ [s]\<rparr>"

section \<open>Series.str.contains (pat, case=False, na=False)\<close>

text \<open>
  pandas compiles \<open>pat\<close> as a regular expression with \<open>re.IGNORECASE\<close> and keeps the
  elements where \<open>pat.search\<close> succeeds; a missing value gives \<open>na\<close>, here False.
  The patterns made of literal characters and the alternation bar, which is what lines
  80 and 85 build, are matched here: some alternative occurs in the subject, letters
  compared without case. A pattern with another special character goes to \<open>re_engine\<close>.
\<close>

definition special_chars :: "char list" where
  "special_chars = [CHR ''.'', CHR ''^'', CHR ''$'', CHR ''*'', CHR ''+'', CHR ''?'',
     CHR ''{'', CHR ''}'', CHR ''['', CHR '']'', CHR 0x5C, CHR ''('', CHR '')'']"

definition lower_char :: "char \<Rightarrow> char" where
  "lower_char c =
     (case map_of (zip ''ABCDEFGHIJKLMNOPQRSTUVWXYZ'' ''abcdefghijklmnopqrstuvwxyz'') c of
        None \<Rightarrow> c
      | Some l \<Rightarrow> l)"

definition lower :: "string \<Rightarrow> string" where
  "lower s = map lower_char s"

fun split_bar :: "string \<Rightarrow> string list" where
  "split_bar [] = [[]]"
| "split_bar (c # cs) =
     (if c = CHR ''|'' then [] # split_bar cs
      else (case split_bar cs of a # as \<Rightarrow> (c # a) # as | [] \<Rightarrow> [[c]]))"

fun search_literal :: "string \<Rightarrow> string \<Rightarrow> bool" where
  "search_literal p [] = (p = [])"
| "search_literal p (c # cs) = (prefix p (c # cs) \<or> search_literal p cs)"

definition re_search :: "string list \<Rightarrow> string \<Rightarrow> bool" where
  "re_search alts s = list_ex (\<lambda>a. search_literal a (lower s)) alts"

definition re_compile :: "env \<Rightarrow> string \<Rightarrow> exn + (string \<Rightarrow> bool)" where
  "re_compile ev pat =
     (if list_ex (\<lambda>c. c \<in> set special_chars) pat
      then (case re_engine ev pat of None \<Rightarrow> Inl ReError | Some m \<Rightarrow> Inr m)
      else Inr (re_search (map lower (split_bar pat))))"

definition str_contains :: "env \<Rightarrow> string \<Rightarrow> exn + (string option \<Rightarrow> bool)" where
  "str_contains ev pat =
     (case re_compile ev pat of
        Inl e \<Rightarrow> Inl e
      | Inr m \<Rightarrow> Inr (\<lambda>v. case v of None \<Rightarrow> False | Some s \<Rightarrow> m s))"

text \<open>\<open>'|'.join(xs)\<close>\<close>

fun join_bar :: "string list \<Rightarrow> string" where
  "join_bar [] = []"
| "join_bar [x] = x"
| "join_bar (x # y # ys) = x @ CHR ''|'' # join_bar (y # ys)"

section \<open>Availability Fetcher and Filter Pipeline (lines 40-88)\<close>

definition row_of_entry :: "entry \<Rightarrow> row" where
  "row_of_entry e =
     \<lparr>ResortName = e_ResortName e, RoomType = e_RoomType e, ViewType = e_ViewType e,
      Points = e_Points e,
      Availability = (case e_Availability e of None \<Rightarrow> None | Some a \<Rightarrow> a)\<rparr>"

definition url_of :: "string \<Rightarrow> string \<Rightarrow> string" where
  "url_of sd ed =
     ''https://dvc-points.herokuapp.com/get-resort-info?arrivalDate='' @ sd
       @ ''&departureDate='' @ ed"

text \<open>\<open>str\<close> of a status code, in decimal.\<close>

fun str_nat :: "nat \<Rightarrow> string" where
  "str_nat n =
     (if n < 10 then [''0123456789'' ! n]
      else str_nat (n div 10) @ [''0123456789'' ! (n mod 10)])"

declare str_nat.simps [simp del]

definition exclude_keywords :: "string list" where
  "exclude_keywords = [''Aulani'', ''Beach'', ''Disneyland'', ''Hilton'', ''Californian'']"

text \<open>Line 74: a filter that is \<open>None\<close> or empty is falsy and skipped.\<close>

definition filter_room_type :: "env \<Rightarrow> string option \<Rightarrow> row list \<Rightarrow> exn + row list" where
  "filter_room_type ev room_type_filter df =
     (case room_type_filter of
        None \<Rightarrow> Inr df
      | Some f \<Rightarrow>
          if f = [] then Inr df
          else (case str_contains ev f of
                  Inl e \<Rightarrow> Inl e
                | Inr m \<Rightarrow> Inr (filter (\<lambda>r. m (RoomType r)) df)))"

definition filter_exclude :: "env \<Rightarrow> bool \<Rightarrow> row list \<Rightarrow> exn + row list" where
  "filter_exclude ev excl df =
     (if excl then
        (case str_contains ev (join_bar exclude_keywords) of
           Inl e \<Rightarrow> Inl e
         | Inr m \<Rightarrow> Inr (filter (\<lambda>r. \<not> m (ResortName r)) df))
      else Inr df)"

definition filter_resort_name ::
  "env \<Rightarrow> string list option \<Rightarrow> row list \<Rightarrow> exn + row list" where
  "filter_resort_name ev resort_name_filter df =
     (case resort_name_filter of
        None \<Rightarrow> Inr df
      | Some ns \<Rightarrow>
          if ns = [] then Inr df
          else (case str_contains ev (join_bar ns) of
                  Inl e \<Rightarrow> Inl e
                | Inr m \<Rightarrow> Inr (filter (\<lambda>r. m (ResortName r)) df)))"

text \<open>
  Lines 57-88. A DataFrame built from an empty list has no columns, so selecting
  \<open>df["Availability"]\<close> raises KeyError when the API answers with an empty object.
\<close>

definition process_data ::
  "env \<Rightarrow> entry list \<Rightarrow> string option \<Rightarrow> bool \<Rightarrow> string list option \<Rightarrow> exn + ret" where
  "process_data ev data room_type_filter excl resort_name_filter =
     (let resorts = map row_of_entry data in
      if resorts = [] then Inl KeyError
      else
        (let df = filter (\<lambda>r. Availability r = Some ''Full'') resorts in
         case filter_room_type ev room_type_filter df of
           Inl e \<Rightarrow> Inl e
         | Inr df1 \<Rightarrow>
             (case filter_exclude ev excl df1 of
                Inl e \<Rightarrow> Inl e
              | Inr df2 \<Rightarrow>
                  (case filter_resort_name ev resort_name_filter df2 of
                     Inl e \<Rightarrow> Inl e
                   | Inr df3 \<Rightarrow> Inr (DataFrame df3)))))"

definition fetch_resort_info ::
  "env \<Rightarrow> string \<Rightarrow> string \<Rightarrow> string option \<Rightarrow> bool \<Rightarrow> string list option \<Rightarrow> exn + ret" where
  "fetch_resort_info ev sd0 ed0 room_type_filter excl resort_name_filter =
     (case strptime_strftime ev sd0 of
        None \<Rightarrow> Inr (Str ''Invalid date format. Please use YYYY-mm-dd.'')
      | Some sd \<Rightarrow>
          (case strptime_strftime ev ed0 of
             None \<Rightarrow> Inr (Str ''Invalid date format. Please use YYYY-mm-dd.'')
           | Some ed \<Rightarrow>
               (case requests_get ev (url_of sd ed) of
                  ConnectionFailed \<Rightarrow> Inl ConnectionError
                | Response status_code body \<Rightarrow>
                    if status_code \<noteq> 200
                    then Inr (Str (''Error fetching data: '' @ str_nat status_code))
                    else (case body of
                            None \<Rightarrow> Inl JSONDecodeError
                          | Some data \<Rightarrow>
                              process_data ev data room_type_filter excl
                                resort_name_filter))))"

section \<open>Change Detector and Notifier (lines 90-127)\<close>

definition send_pushover_alert :: "env \<Rightarrow> string \<Rightarrow> pushover_config \<Rightarrow> world \<Rightarrow> outcome \<times> world" where
  "send_pushover_alert ev message cfg w =
     (let w' = w\<lparr>dispatched := dispatched w @ [(cfg, message, ''DVC Availability Alert'')]\<rparr>
      in if send_message ev cfg message ''DVC Availability Alert''
         then (Returned, w') else (Raised PushoverError, w'))"

text \<open>Line 112, \<open>alert_config.get("name", "Unnamed")\<close>; \<open>None\<close> is Python's \<open>None\<close>.\<close>

definition alert_name_of :: "alert_config \<Rightarrow> string option" where
  "alert_name_of ac = (case name ac of None \<Rightarrow> Some ''Unnamed'' | Some v \<Rightarrow> v)"

text \<open>The name as an f-string renders it.\<close>

definition format_name :: "string option \<Rightarrow> string" where
  "format_name alert_name = (case alert_name of None \<Rightarrow> ''None'' | Some n \<Rightarrow> n)"

definition fetch_for :: "env \<Rightarrow> alert_config \<Rightarrow> exn + ret" where
  "fetch_for ev ac =
     fetch_resort_info ev (start_date ac) (end_date ac) (room_type ac)
       (case exclude_non_wdw ac of None \<Rightarrow> False | Some b \<Rightarrow> b) (resort_names ac)"

definition check_availability :: "env \<Rightarrow> alert_config \<Rightarrow> world \<Rightarrow> outcome \<times> world" where
  "check_availability ev ac conn =
     (case fetch_for ev ac of
        Inl e \<Rightarrow> (Raised e, conn)
      | Inr (Str s) \<Rightarrow> (Returned, print s conn)
      | Inr (DataFrame result) \<Rightarrow>
          (let result_str = to_string ev result;
               alert_name = alert_name_of ac;
               last_result_str = fetch_last_result conn alert_name
           in if Some result_str \<noteq> last_result_str then
                (let conn1 = update_last_result conn alert_name result_str in
                 if result \<noteq> [] then
                   (let message = ''Availability found for alert '' @ [CHR 0x27]
                                    @ format_name alert_name
                                    @ [CHR 0x27] @ '':'' @ [CHR 0x0A] @ result_str;
                        conn2 = print message conn1
                    in case pushover ac of
                         None \<Rightarrow> (Returned, conn2)
                       | Some cfg \<Rightarrow> send_pushover_alert ev message cfg conn2)
                 else (Returned,
                       print (''No availability found for alert '' @ [CHR 0x27]
                                @ format_name alert_name @ [CHR 0x27] @ ''.'') conn1))
              else (Returned, conn)))"

section \<open>Scheduler Loop (lines 143-147)\<close>

text \<open>The \<open>for\<close> loop of one cycle: an exception leaves it at once.\<close>

fun run_alerts :: "env \<Rightarrow> alert_config list \<Rightarrow> world \<Rightarrow> outcome \<times> world" where
  "run_alerts ev [] w = (Returned, w)"
| "run_alerts ev (ac # acs) w =
     (case check_availability ev ac w of
        (Returned, w') \<Rightarrow> run_alerts ev acs w'
      | (Raised e, w') \<Rightarrow> (Raised e, w'))"

definition cycle :: "env \<Rightarrow> alert_config list \<Rightarrow> world \<Rightarrow> outcome \<times> world" where
  "cycle ev alerts w =
     run_alerts ev alerts (print (''Checking availability at '' @ now ev @ ''...'') w)"

text \<open>
  \<open>while True\<close>: one environment per cycle, the list being the cycles observed. The loop
  has no exit of its own, so after the last observed cycle it is still running. The
  sleep of line 147 changes nothing that is modelled.
\<close>

fun main_loop :: "env list \<Rightarrow> alert_config list \<Rightarrow> world \<Rightarrow> loop_status \<times> world" where
  "main_loop [] alerts w = (Still_running, w)"
| "main_loop (ev # evs) alerts w =
     (case cycle ev alerts w of
        (Returned, w') \<Rightarrow> main_loop evs alerts w'
      | (Raised e, w') \<Rightarrow> (Aborted e, w'))"

section \<open>The substring test of the specification\<close>

text \<open>
  Section 4.2 of the specification words rules 2 to 4 as containment of a case-insensitive
  substring: some part of the subject equals the filter once both are folded to lower case.
\<close>

definition spec_contains_ci :: "string \<Rightarrow> string \<Rightarrow> bool" where
  "spec_contains_ci sub s = (\<exists>before after. lower s = before @ lower sub @ after)"

text \<open>
  The room-type rule as the code applies it to a filter of literal characters: the filter
  is one pattern, and a bar separates alternatives.
\<close>

definition room_type_matches :: "string \<Rightarrow> row \<Rightarrow> bool" where
  "room_type_matches f r =
     (\<exists>t. RoomType r = Some t \<and>
        (if CHR ''|'' \<in> set f then \<exists>a\<in>set (split_bar f). spec_contains_ci a t
         else spec_contains_ci f t))"

section \<open>A sample configuration\<close>

text \<open>
  Concrete collaborators and alerts on which the theorems below are exercised. No sample
  pattern has a special character other than the bar, so the sample engine is never asked.
\<close>

definition sample_dates :: "string \<Rightarrow> string option" where
  "sample_dates s =
     (if s = ''2025-03-01'' then Some ''20250301''
      else if s = ''2025-03-05'' then Some ''20250305''
      else if s = ''2025-04-10'' then Some ''20250410''
      else None)"

definition sample_render :: "row list \<Rightarrow> string" where
  "sample_render df =
     (if df = [] then ''Empty DataFrame''
      else concat (map (\<lambda>r. (case ResortName r of None \<Rightarrow> ''None'' | Some s \<Rightarrow> s) @ '' ''
                            @ (case RoomType r of None \<Rightarrow> ''None'' | Some s \<Rightarrow> s) @ '';'') df))"

definition sample_http :: "entry list \<Rightarrow> string \<Rightarrow> http_result" where
  "sample_http data url = Response 200 (Some data)"

text \<open>The service unreachable for one URL, answering for the others.\<close>

definition failing_http :: "string \<Rightarrow> entry list \<Rightarrow> string \<Rightarrow> http_result" where
  "failing_http bad_url data url =
     (if url = bad_url then ConnectionFailed else Response 200 (Some data))"

definition sample_env :: "(string \<Rightarrow> http_result) \<Rightarrow> bool \<Rightarrow> env" where
  "sample_env http ok =
     \<lparr>strptime_strftime = sample_dates, requests_get = http, to_string = sample_render,
      send_message = (\<lambda>cfg message title. ok), now = ''2025-02-01 08:00:00'',
      re_engine = (\<lambda>pat. None)\<rparr>"

definition sample_entry :: "string \<Rightarrow> string \<Rightarrow> string \<Rightarrow> entry" where
  "sample_entry resort room avail =
     \<lparr>e_ResortName = Some resort, e_RoomType = Some room, e_ViewType = Some ''Standard'',
      e_Points = Some 20, e_Availability = Some (Some avail)\<rparr>"

definition sample_row :: "string \<Rightarrow> string \<Rightarrow> string \<Rightarrow> row" where
  "sample_row resort room avail =
     \<lparr>ResortName = Some resort, RoomType = Some room, ViewType = Some ''Standard'',
      Points = Some 20, Availability = Some avail\<rparr>"

definition sample_pushover :: pushover_config where
  "sample_pushover = \<lparr>user_key = ''u'', api_token = ''t''\<rparr>"

definition sample_alert :: alert_config where
  "sample_alert =
     \<lparr>name = Some (Some ''Test''), start_date = ''2025-03-01'', end_date = ''2025-03-05'',
      room_type = None, exclude_non_wdw = None, resort_names = None,
      pushover = Some sample_pushover\<rparr>"

definition sample_world :: world where
  "sample_world = \<lparr>db = Map.empty, null_rows = [], printed = [], dispatched = []\<rparr>"

section \<open>Evaluation of the definitions\<close>

lemmas sample_defs = sample_http_def failing_http_def sample_dates_def sample_render_def
  sample_env_def sample_entry_def
  sample_row_def sample_pushover_def sample_alert_def sample_world_def

lemmas pipeline_defs = fetch_for_def fetch_resort_info_def process_data_def row_of_entry_def
  filter_room_type_def filter_exclude_def filter_resort_name_def str_contains_def
  re_compile_def re_search_def special_chars_def lower_def lower_char_def exclude_keywords_def
  url_of_def

lemmas detector_defs = check_availability_def fetch_last_result_def update_last_result_def
  print_def send_pushover_alert_def alert_name_of_def format_name_def

section \<open>The Change Detector, one run\<close>

lemma str_contains_send_message:
  "str_contains (ev\<lparr>send_message := p\<rparr>) = str_contains ev"
  by (simp add: fun_eq_iff str_contains_def re_compile_def)

lemma process_data_send_message:
  "process_data (ev\<lparr>send_message := p\<rparr>) data rt ex rn = process_data ev data rt ex rn"
proof -
  have "filter_room_type (ev\<lparr>send_message := p\<rparr>) = filter_room_type ev"
    and "filter_exclude (ev\<lparr>send_message := p\<rparr>) = filter_exclude ev"
    and "filter_resort_name (ev\<lparr>send_message := p\<rparr>) = filter_resort_name ev"
    by (simp_all add: fun_eq_iff filter_room_type_def filter_exclude_def filter_resort_name_def
        str_contains_send_message split: option.splits)
  then show ?thesis
    by (simp add: process_data_def cong: sum.case_cong)
qed

lemma fetch_for_send_message [simp]:
  "fetch_for (ev\<lparr>send_message := p\<rparr>) ac = fetch_for ev ac"
  by (simp add: fetch_for_def fetch_resort_info_def process_data_send_message
      split: option.splits http_result.splits)







lemma sample_fetch:
  "fetch_for (sample_env (sample_http [sample_entry ''Riviera'' ''Studio'' ''Full'']) ok)
     sample_alert = Inr (DataFrame [sample_row ''Riviera'' ''Studio'' ''Full''])"
  by (simp add: sample_defs pipeline_defs)

section \<open>Idempotence of the Change Detector\<close>




section \<open>The Filter Pipeline, step by step\<close>

lemma exclude_pattern_compiles:
  "re_compile ev (join_bar exclude_keywords)
     = Inr (re_search [''aulani'', ''beach'', ''disneyland'', ''hilton'', ''californian''])"
  by (simp add: re_compile_def exclude_keywords_def special_chars_def lower_def lower_char_def)

lemma filter_room_type_cases:
  "filter_room_type ev rt df = Inr df' \<Longrightarrow> \<exists>P. \<forall>xs. filter_room_type ev rt xs = Inr (filter P xs)"
  by (auto simp: filter_room_type_def split: option.splits if_splits sum.splits
      intro: exI [of _ "\<lambda>r. True"])

lemma filter_exclude_cases:
  "\<exists>P. \<forall>xs. filter_exclude ev ex xs = Inr (filter P xs)"
proof (cases ex)
  case True
  then show ?thesis
    by (auto simp: filter_exclude_def str_contains_def exclude_pattern_compiles)
next
  case False
  then show ?thesis
    by (auto simp: filter_exclude_def intro: exI [of _ "\<lambda>r. True"])
qed

lemma filter_resort_name_cases:
  "filter_resort_name ev rn df = Inr df' \<Longrightarrow> \<exists>P. \<forall>xs. filter_resort_name ev rn xs = Inr (filter P xs)"
  by (auto simp: filter_resort_name_def split: option.splits if_splits sum.splits
      intro: exI [of _ "\<lambda>r. True"])

lemma filter_resort_name_None: "filter_resort_name ev None df = Inr df"
  by (simp add: filter_resort_name_def)

lemma filter_exclude_False: "filter_exclude ev False df = Inr df"
  by (simp add: filter_exclude_def)

lemma filter_mem_filter:
  "filter (\<lambda>r. r \<in> set (filter P xs)) (filter Q xs) = filter Q (filter P xs)"
  by (auto simp: filter_filter intro: filter_cong)

lemma process_data_intersection:
  assumes a: "process_data ev data rt ex None = Inr (DataFrame a)"
    and b: "process_data ev data rt False rn = Inr (DataFrame b)"
  shows "process_data ev data rt ex rn = Inr (DataFrame (filter (\<lambda>r. r \<in> set a) b))"
proof -
  let ?base = "filter (\<lambda>r. Availability r = Some ''Full'') (map row_of_entry data)"
  from a have ne: "map row_of_entry data \<noteq> []"
    by (auto simp: process_data_def Let_def split: if_splits)
  from a ne obtain df1 where r: "filter_room_type ev rt ?base = Inr df1"
    by (auto simp: process_data_def Let_def split: sum.splits)
  obtain E where e: "\<And>xs. filter_exclude ev ex xs = Inr (filter E xs)"
    using filter_exclude_cases [of ev ex] by blast
  from b ne r obtain df3 where "filter_resort_name ev rn df1 = Inr df3"
    by (auto simp: process_data_def Let_def filter_exclude_False split: sum.splits)
  then obtain I where i: "\<And>xs. filter_resort_name ev rn xs = Inr (filter I xs)"
    using filter_resort_name_cases by blast
  from a ne r e have a': "a = filter E df1"
    by (simp add: process_data_def Let_def filter_resort_name_None)
  from b ne r i have b': "b = filter I df1"
    by (simp add: process_data_def Let_def filter_exclude_False)
  from ne r e i have "process_data ev data rt ex rn = Inr (DataFrame (filter I (filter E df1)))"
    by (simp add: process_data_def Let_def)
  moreover have "filter (\<lambda>r. r \<in> set a) b = filter I (filter E df1)"
    unfolding a' b' by (rule filter_mem_filter)
  ultimately show ?thesis
    by simp
qed

lemma fetch_resort_info_DataFrame:
  "fetch_resort_info ev sd ed rt ex rn = Inr (DataFrame df) \<Longrightarrow>
   \<exists>sd' ed' data. strptime_strftime ev sd = Some sd' \<and> strptime_strftime ev ed = Some ed' \<and>
      requests_get ev (url_of sd' ed') = Response 200 (Some data) \<and>
      process_data ev data rt ex rn = Inr (DataFrame df)"
  by (auto simp: fetch_resort_info_def split: option.splits http_result.splits if_splits)

lemma fetch_resort_info_ok:
  "strptime_strftime ev sd = Some sd' \<Longrightarrow> strptime_strftime ev ed = Some ed' \<Longrightarrow>
   requests_get ev (url_of sd' ed') = Response 200 (Some data) \<Longrightarrow>
   fetch_resort_info ev sd ed rt ex rn = process_data ev data rt ex rn"
  by (simp add: fetch_resort_info_def)

section \<open>Exclusion and inclusion of resort names\<close>

text \<open>
  Claim C8. For every fetched record set, every setting of \<open>exclude_non_wdw\<close> and every
  \<open>resort_names\<close> list: when the exclusion alone yields \<open>a\<close> and the inclusion alone
  yields \<open>b\<close>, applying both at once yields the rows of \<open>b\<close> that are in \<open>a\<close>, in fetch
  order; as a set, the intersection of \<open>a\<close> and \<open>b\<close>.
\<close>

theorem exclusion_inclusion_intersection:
  assumes a: "fetch_resort_info ev sd ed rt ex None = Inr (DataFrame a)"
    and b: "fetch_resort_info ev sd ed rt False rn = Inr (DataFrame b)"
  shows "\<exists>both. fetch_resort_info ev sd ed rt ex rn = Inr (DataFrame both) \<and>
           both = filter (\<lambda>r. r \<in> set a) b \<and> set both = set a \<inter> set b"
proof -
  from fetch_resort_info_DataFrame [OF a] obtain sd' ed' data where
    d: "strptime_strftime ev sd = Some sd'" "strptime_strftime ev ed = Some ed'"
       "requests_get ev (url_of sd' ed') = Response 200 (Some data)"
    and pa: "process_data ev data rt ex None = Inr (DataFrame a)"
    by blast
  from b d have pb: "process_data ev data rt False rn = Inr (DataFrame b)"
    by (simp add: fetch_resort_info_ok)
  from process_data_intersection [OF pa pb] d
  have "fetch_resort_info ev sd ed rt ex rn = Inr (DataFrame (filter (\<lambda>r. r \<in> set a) b))"
    by (simp add: fetch_resort_info_ok)
  then show ?thesis by auto
qed

theorem exclusion_inclusion_intersection_witness:
  "let ev = sample_env (sample_http [sample_entry ''Riviera'' ''Studio'' ''Full'',
              sample_entry ''Aulani'' ''Studio'' ''Full'',
              sample_entry ''Polynesian'' ''Studio'' ''Full'']) True;
       rn = Some [''riviera'', ''aulani'']
   in fetch_resort_info ev ''2025-03-01'' ''2025-03-05'' None True None
        = Inr (DataFrame [sample_row ''Riviera'' ''Studio'' ''Full'',
                          sample_row ''Polynesian'' ''Studio'' ''Full''])
    \<and> fetch_resort_info ev ''2025-03-01'' ''2025-03-05'' None False rn
        = Inr (DataFrame [sample_row ''Riviera'' ''Studio'' ''Full'',
                          sample_row ''Aulani'' ''Studio'' ''Full''])
    \<and> fetch_resort_info ev ''2025-03-01'' ''2025-03-05'' None True rn
        = Inr (DataFrame [sample_row ''Riviera'' ''Studio'' ''Full''])"
proof -
  let ?ev = "sample_env (sample_http [sample_entry ''Riviera'' ''Studio'' ''Full'',
              sample_entry ''Aulani'' ''Studio'' ''Full'',
              sample_entry ''Polynesian'' ''Studio'' ''Full'']) True"
  let ?rn = "Some [''riviera'', ''aulani'']"
  have a: "fetch_resort_info ?ev ''2025-03-01'' ''2025-03-05'' None True None
        = Inr (DataFrame [sample_row ''Riviera'' ''Studio'' ''Full'',
                          sample_row ''Polynesian'' ''Studio'' ''Full''])"
    by (simp add: sample_defs pipeline_defs)
  have b: "fetch_resort_info ?ev ''2025-03-01'' ''2025-03-05'' None False ?rn
        = Inr (DataFrame [sample_row ''Riviera'' ''Studio'' ''Full'',
                          sample_row ''Aulani'' ''Studio'' ''Full''])"
    by (simp add: sample_defs pipeline_defs)
  from exclusion_inclusion_intersection [OF a b]
  have "fetch_resort_info ?ev ''2025-03-01'' ''2025-03-05'' None True ?rn
        = Inr (DataFrame [sample_row ''Riviera'' ''Studio'' ''Full''])"
    by (simp add: sample_row_def)
  with a b show ?thesis
    by (simp add: Let_def)
qed


lemma process_data_subset:
  assumes "process_data ev data rt ex rn = Inr (DataFrame df)"
  shows "set df \<subseteq> {r \<in> set (map row_of_entry data). Availability r = Some ''Full''}"
proof -
  let ?base = "filter (\<lambda>r. Availability r = Some ''Full'') (map row_of_entry data)"
  from assms have ne: "map row_of_entry data \<noteq> []"
    by (auto simp: process_data_def Let_def split: if_splits)
  from assms ne obtain df1 where r: "filter_room_type ev rt ?base = Inr df1"
    by (auto simp: process_data_def Let_def split: sum.splits)
  then obtain R where r': "df1 = filter R ?base"
    using filter_room_type_cases [OF r] by auto
  obtain E where e: "\<And>xs. filter_exclude ev ex xs = Inr (filter E xs)"
    using filter_exclude_cases [of ev ex] by blast
  from assms ne r e obtain df3 where i: "filter_resort_name ev rn (filter E df1) = Inr df3"
    by (auto simp: process_data_def Let_def split: sum.splits)
  then obtain I where i': "df3 = filter I (filter E df1)"
    using filter_resort_name_cases [OF i] by auto
  from assms ne r e i have "df = df3"
    by (simp add: process_data_def Let_def)
  with r' i' show ?thesis
    by auto
qed

section \<open>Records that are not fully available\<close>

text \<open>
  Claim C3. Whatever the room-type, exclude-non-WDW and resort-name settings, a record
  whose availability status is not \<open>Full\<close> (missing status included) is not in the result
  of the Filter Pipeline.
\<close>

theorem not_full_excluded:
  assumes "fetch_resort_info ev sd ed rt ex rn = Inr (DataFrame df)"
    and "Availability r \<noteq> Some ''Full''"
  shows "r \<notin> set df"
proof -
  from fetch_resort_info_DataFrame [OF assms(1)] obtain data where
    "process_data ev data rt ex rn = Inr (DataFrame df)"
    by blast
  from process_data_subset [OF this] assms(2) show ?thesis
    by auto
qed

theorem not_full_excluded_witness:
  "let ev = sample_env (sample_http [sample_entry ''Riviera'' ''Deluxe Studio'' ''Full'',
              sample_entry ''Riviera'' ''Deluxe Studio'' ''Partial'']) True
   in fetch_resort_info ev ''2025-03-01'' ''2025-03-05'' (Some ''studio'') True (Some [''riviera''])
        = Inr (DataFrame [sample_row ''Riviera'' ''Deluxe Studio'' ''Full''])
    \<and> Availability (sample_row ''Riviera'' ''Deluxe Studio'' ''Partial'') \<noteq> Some ''Full''
    \<and> sample_row ''Riviera'' ''Deluxe Studio'' ''Partial''
         \<notin> set [sample_row ''Riviera'' ''Deluxe Studio'' ''Full'']"
proof -
  let ?ev = "sample_env (sample_http [sample_entry ''Riviera'' ''Deluxe Studio'' ''Full'',
              sample_entry ''Riviera'' ''Deluxe Studio'' ''Partial'']) True"
  have f: "fetch_resort_info ?ev ''2025-03-01'' ''2025-03-05'' (Some ''studio'') True
             (Some [''riviera''])
           = Inr (DataFrame [sample_row ''Riviera'' ''Deluxe Studio'' ''Full''])"
    by (simp add: sample_defs pipeline_defs)
  have p: "Availability (sample_row ''Riviera'' ''Deluxe Studio'' ''Partial'') \<noteq> Some ''Full''"
    by (simp add: sample_row_def)
  from not_full_excluded [OF f p] f p show ?thesis
    by (simp only: Let_def simp_thms)
qed

section \<open>The room-type filter\<close>

lemma search_literal_sublist: "search_literal p s = sublist p s"
  by (induction s) (auto simp: sublist_Cons_right)

lemma spec_contains_ci_search:
  "spec_contains_ci sub s = search_literal (lower sub) (lower s)"
  by (simp add: spec_contains_ci_def search_literal_sublist sublist_def)

lemma split_bar_no_bar: "CHR ''|'' \<notin> set f \<Longrightarrow> split_bar f = [f]"
  by (induction f) auto

lemma re_search_spec:
  "re_search (map lower (split_bar f)) t = (\<exists>a\<in>set (split_bar f). spec_contains_ci a t)"
  by (auto simp: re_search_def list_ex_iff spec_contains_ci_search)

lemma filter_resort_name_Inl:
  "filter_resort_name ev rn df = Inl e \<Longrightarrow> filter_resort_name ev rn xs = Inl e"
  by (auto simp: filter_resort_name_def split: option.splits if_splits sum.splits)

lemma filter_room_type_literal:
  assumes "f \<noteq> []" "\<forall>c\<in>set f. c \<notin> set special_chars"
  shows "filter_room_type ev (Some f) xs = Inr (filter (room_type_matches f) xs)"
proof -
  from assms(2) have c: "re_compile ev f = Inr (re_search (map lower (split_bar f)))"
    by (auto simp: re_compile_def list_ex_iff)
  have "(\<lambda>r. case RoomType r of None \<Rightarrow> False
              | Some s \<Rightarrow> re_search (map lower (split_bar f)) s) = room_type_matches f"
    by (auto simp: fun_eq_iff room_type_matches_def re_search_spec split_bar_no_bar
        split: option.splits)
  with assms(1) c show ?thesis
    by (simp add: filter_room_type_def str_contains_def)
qed

lemma process_data_room_type:
  assumes "f \<noteq> []" "\<forall>c\<in>set f. c \<notin> set special_chars"
  shows "process_data ev data (Some f) ex rn =
     (case process_data ev data None ex rn of
        Inr (DataFrame base) \<Rightarrow> Inr (DataFrame (filter (room_type_matches f) base))
      | other \<Rightarrow> other)"
proof (cases "map row_of_entry data = []")
  case True
  then show ?thesis by (simp add: process_data_def)
next
  case False
  let ?base = "filter (\<lambda>r. Availability r = Some ''Full'') (map row_of_entry data)"
  note r = filter_room_type_literal [OF assms]
  have n: "\<And>xs. filter_room_type ev None xs = Inr xs"
    by (simp add: filter_room_type_def)
  obtain E where e: "\<And>xs. filter_exclude ev ex xs = Inr (filter E xs)"
    using filter_exclude_cases [of ev ex] by blast
  show ?thesis
  proof (cases "filter_resort_name ev rn []")
    case (Inl x)
    then have "\<And>xs. filter_resort_name ev rn xs = Inl x"
      by (rule filter_resort_name_Inl)
    with False r n e show ?thesis
      by (simp add: process_data_def Let_def)
  next
    case (Inr y)
    then obtain I where i: "\<And>xs. filter_resort_name ev rn xs = Inr (filter I xs)"
      using filter_resort_name_cases by blast
    have "filter I (filter E (filter (room_type_matches f) ?base))
          = filter (room_type_matches f) (filter I (filter E ?base))"
      by (auto simp: filter_filter intro: filter_cong)
    with False r n e i show ?thesis
      by (simp add: process_data_def Let_def)
  qed
qed

text \<open>
  Claim C4, as the code has it. The room-type filter is compiled as a case-insensitive
  regular expression. For a non-empty filter of literal characters the pipeline keeps
  exactly the records, among those the other rules keep, whose \<open>room_type\<close> contains the
  filter as a case-insensitive substring; when the filter has bars, the records whose
  \<open>room_type\<close> contains one of the alternatives between the bars.
\<close>

theorem room_type_filter_regex:
  assumes "f \<noteq> []" "\<forall>c\<in>set f. c \<notin> set special_chars"
  shows "fetch_resort_info ev sd ed (Some f) ex rn =
     (case fetch_resort_info ev sd ed None ex rn of
        Inr (DataFrame base) \<Rightarrow> Inr (DataFrame (filter (room_type_matches f) base))
      | other \<Rightarrow> other)"
  by (simp add: fetch_resort_info_def process_data_room_type [OF assms]
      split: option.splits http_result.splits)

theorem room_type_filter_regex_witness:
  "fetch_resort_info
     (sample_env (sample_http [sample_entry ''Riviera'' ''Deluxe Studio'' ''Full'',
         sample_entry ''Riviera'' ''1 Bedroom'' ''Full'']) True)
     ''2025-03-01'' ''2025-03-05'' (Some ''studio'') False None
     = Inr (DataFrame [sample_row ''Riviera'' ''Deluxe Studio'' ''Full''])"
proof -
  let ?ev = "sample_env (sample_http [sample_entry ''Riviera'' ''Deluxe Studio'' ''Full'',
         sample_entry ''Riviera'' ''1 Bedroom'' ''Full'']) True"
  have h1: "''studio'' \<noteq> []"
    by simp
  have h2: "\<forall>c\<in>set ''studio''. c \<notin> set special_chars"
    by (simp add: special_chars_def)
  have base: "fetch_resort_info ?ev ''2025-03-01'' ''2025-03-05'' None False None
      = Inr (DataFrame [sample_row ''Riviera'' ''Deluxe Studio'' ''Full'',
                        sample_row ''Riviera'' ''1 Bedroom'' ''Full''])"
    by (simp add: sample_defs pipeline_defs)
  have m1: "room_type_matches ''studio'' (sample_row ''Riviera'' ''Deluxe Studio'' ''Full'')"
    by (simp add: room_type_matches_def sample_row_def spec_contains_ci_search lower_def
        lower_char_def)
  have m2: "\<not> room_type_matches ''studio'' (sample_row ''Riviera'' ''1 Bedroom'' ''Full'')"
    by (simp add: room_type_matches_def sample_row_def spec_contains_ci_search lower_def
        lower_char_def)
  from room_type_filter_regex [OF h1 h2, of ?ev "''2025-03-01''" "''2025-03-05''" False None]
    base m1 m2
  have "fetch_resort_info ?ev ''2025-03-01'' ''2025-03-05'' (Some ''studio'') False None
     = Inr (DataFrame [sample_row ''Riviera'' ''Deluxe Studio'' ''Full''])"
    by simp
  then show ?thesis .
qed

text \<open>
  Claim C4 as written fails on a filter with a special character: the filter
  \<open>Studio|Villa\<close> keeps a record whose room type is \<open>Grand Villa\<close>, which does not contain
  the filter as a substring.
\<close>

theorem room_type_filter_counterexample:
  "fetch_resort_info
     (sample_env (sample_http [sample_entry ''Riviera'' ''Grand Villa'' ''Full'']) True)
     ''2025-03-01'' ''2025-03-05'' (Some ''Studio|Villa'') False None
     = Inr (DataFrame [sample_row ''Riviera'' ''Grand Villa'' ''Full''])
   \<and> \<not> spec_contains_ci ''Studio|Villa'' ''Grand Villa''"
  by (simp add: sample_defs pipeline_defs spec_contains_ci_search)


section \<open>Reported fetch failures\<close>




section \<open>Changes detected by the Change Detector\<close>

text \<open>
  Claim C6. When the filtered result is empty and its rendering differs from the stored
  value, the store row of the alert is set to the rendering of the empty result, the line
  \<open>No availability found for alert '...'.\<close> is printed, and nothing is dispatched. (Under
  a null name the stored value is always absent and the row is a new one.)
\<close>

theorem empty_result_updates_store:
  assumes "fetch_for ev ac = Inr (DataFrame [])"
    and "fetch_last_result w (alert_name_of ac) \<noteq> Some (to_string ev [])"
  shows "check_availability ev ac w =
           (Returned,
            (case alert_name_of ac of
               Some n \<Rightarrow>
                 w\<lparr>db := (db w)(n \<mapsto> to_string ev []),
                   printed := printed w @
                     [''No availability found for alert '' @ [CHR 0x27] @ n
                        @ [CHR 0x27] @ ''.'']\<rparr>
             | None \<Rightarrow>
                 w\<lparr>null_rows := null_rows w @ [to_string ev []],
                   printed := printed w @
                     [''No availability found for alert '' @ [CHR 0x27] @ ''None''
                        @ [CHR 0x27] @ ''.'']\<rparr>))
         \<and> dispatched (snd (check_availability ev ac w)) = dispatched w"
  using assms
  by (simp add: check_availability_def update_last_result_def print_def format_name_def
      Let_def split: option.splits)

theorem empty_result_updates_store_witness:
  "fetch_for
     (sample_env (sample_http [sample_entry ''Riviera'' ''1 Bedroom'' ''Full'',
        sample_entry ''Polynesian'' ''1 Bedroom'' ''Full'',
        sample_entry ''Boardwalk'' ''1 Bedroom'' ''Full'']) True)
     (sample_alert\<lparr>room_type := Some ''Studio''\<rparr>) = Inr (DataFrame [])
   \<and> check_availability
     (sample_env (sample_http [sample_entry ''Riviera'' ''1 Bedroom'' ''Full'',
        sample_entry ''Polynesian'' ''1 Bedroom'' ''Full'',
        sample_entry ''Boardwalk'' ''1 Bedroom'' ''Full'']) True)
     (sample_alert\<lparr>room_type := Some ''Studio''\<rparr>) sample_world
     = (Returned,
        \<lparr>db = [''Test'' \<mapsto> ''Empty DataFrame''], null_rows = [],
         printed = [''No availability found for alert '' @ [CHR 0x27] @ ''Test'' @ [CHR 0x27] @ ''.''],
         dispatched = []\<rparr>)"
proof -
  let ?ev = "sample_env (sample_http [sample_entry ''Riviera'' ''1 Bedroom'' ''Full'',
        sample_entry ''Polynesian'' ''1 Bedroom'' ''Full'',
        sample_entry ''Boardwalk'' ''1 Bedroom'' ''Full'']) True"
  let ?ac = "sample_alert\<lparr>room_type := Some ''Studio''\<rparr>"
  have f: "fetch_for ?ev ?ac = Inr (DataFrame [])"
    by (simp add: sample_defs pipeline_defs)
  have d: "fetch_last_result sample_world (alert_name_of ?ac) \<noteq> Some (to_string ?ev [])"
    by (simp add: sample_world_def sample_alert_def alert_name_of_def fetch_last_result_def)
  from empty_result_updates_store [OF f d] f show ?thesis
    by (simp add: sample_world_def sample_alert_def sample_env_def sample_render_def
        alert_name_of_def)
qed

text \<open>
  Claim C7. An alert without a \<open>pushover\<close> section whose non-empty result has changed:
  the store row of the alert is set to the new rendering and no dispatch call is made.
  (Under a null name the stored value is always absent and the row is a new one.)
\<close>

theorem no_pushover_updates_store:
  assumes "pushover ac = None"
    and "fetch_for ev ac = Inr (DataFrame df)" and "df \<noteq> []"
    and "fetch_last_result w (alert_name_of ac) \<noteq> Some (to_string ev df)"
  shows "\<exists>w'. check_availability ev ac w = (Returned, w') \<and>
           (case alert_name_of ac of
              Some n \<Rightarrow> db w' = (db w)(n \<mapsto> to_string ev df) \<and> null_rows w' = null_rows w
            | None \<Rightarrow> db w' = db w \<and> null_rows w' = null_rows w @ [to_string ev df]) \<and>
           dispatched w' = dispatched w"
  using assms
  by (simp add: check_availability_def update_last_result_def print_def
      Let_def split: option.splits)

theorem no_pushover_updates_store_witness:
  "pushover (sample_alert\<lparr>pushover := None\<rparr>) = None
   \<and> fst (check_availability
         (sample_env (sample_http [sample_entry ''Riviera'' ''Studio'' ''Full'']) True)
         (sample_alert\<lparr>pushover := None\<rparr>) sample_world) = Returned
   \<and> db (snd (check_availability
         (sample_env (sample_http [sample_entry ''Riviera'' ''Studio'' ''Full'']) True)
         (sample_alert\<lparr>pushover := None\<rparr>) sample_world)) ''Test'' = Some ''Riviera Studio;''
   \<and> dispatched (snd (check_availability
         (sample_env (sample_http [sample_entry ''Riviera'' ''Studio'' ''Full'']) True)
         (sample_alert\<lparr>pushover := None\<rparr>) sample_world)) = []"
proof -
  let ?ev = "sample_env (sample_http [sample_entry ''Riviera'' ''Studio'' ''Full'']) True"
  let ?ac = "sample_alert\<lparr>pushover := None\<rparr>"
  have p: "pushover ?ac = None"
    by simp
  have f: "fetch_for ?ev ?ac = Inr (DataFrame [sample_row ''Riviera'' ''Studio'' ''Full''])"
    using sample_fetch [of True] by (simp add: fetch_for_def)
  have n: "[sample_row ''Riviera'' ''Studio'' ''Full''] \<noteq> []"
    by simp
  have d: "fetch_last_result sample_world (alert_name_of ?ac)
             \<noteq> Some (to_string ?ev [sample_row ''Riviera'' ''Studio'' ''Full''])"
    by (simp add: sample_world_def sample_alert_def alert_name_of_def fetch_last_result_def)
  have k: "alert_name_of ?ac = Some ''Test''"
    by (simp add: sample_alert_def alert_name_of_def)
  from no_pushover_updates_store [OF p f n d]
  obtain w' where "check_availability ?ev ?ac sample_world = (Returned, w')"
    "db w' = (db sample_world)(''Test'' \<mapsto>
        to_string ?ev [sample_row ''Riviera'' ''Studio'' ''Full''])"
    "dispatched w' = dispatched sample_world"
    unfolding k by auto
  then show ?thesis
    by (simp add: sample_world_def sample_env_def sample_render_def sample_row_def)
qed




section \<open>A failed dispatch\<close>






section \<open>The Scheduler Loop and exceptions\<close>

lemma run_alerts_append:
  "run_alerts ev pre w = (Returned, w1) \<Longrightarrow> run_alerts ev (pre @ acs) w = run_alerts ev acs w1"
  by (induction pre arbitrary: w) (auto split: prod.splits outcome.splits)

text \<open>
  Claim C2, as the code has it. The loop has no handler: when the alerts before \<open>ac\<close>
  have been processed and \<open>ac\<close> raises, the exception leaves the cycle with the state
  reached at that point, whatever alerts remain, and ends the loop, whatever cycles
  would follow.
\<close>

theorem exception_aborts_loop:
  assumes "cycle ev pre w = (Returned, w1)"
    and "check_availability ev ac w1 = (Raised e, w2)"
  shows "cycle ev (pre @ ac # rest) w = (Raised e, w2) \<and>
         main_loop (ev # evs) (pre @ ac # rest) w = (Aborted e, w2)"
proof -
  from assms(1) have "run_alerts ev (pre @ ac # rest) (print (''Checking availability at ''
      @ now ev @ ''...'') w) = run_alerts ev (ac # rest) w1"
    unfolding cycle_def by (rule run_alerts_append)
  with assms(2) have "cycle ev (pre @ ac # rest) w = (Raised e, w2)"
    by (simp add: cycle_def)
  then show ?thesis
    by simp
qed

theorem exception_aborts_loop_witness:
  "cycle (sample_env (sample_http []) True) [] sample_world
     = (Returned, print ''Checking availability at 2025-02-01 08:00:00...'' sample_world)
   \<and> check_availability (sample_env (sample_http []) True) sample_alert
       (print ''Checking availability at 2025-02-01 08:00:00...'' sample_world)
     = (Raised KeyError, print ''Checking availability at 2025-02-01 08:00:00...'' sample_world)
   \<and> main_loop [sample_env (sample_http []) True,
                  sample_env (sample_http [sample_entry ''Riviera'' ''Studio'' ''Full'']) True]
         [sample_alert, sample_alert\<lparr>name := Some (Some ''Second'')\<rparr>] sample_world
     = (Aborted KeyError, print ''Checking availability at 2025-02-01 08:00:00...'' sample_world)"
proof -
  let ?ev = "sample_env (sample_http []) True"
  let ?w1 = "print ''Checking availability at 2025-02-01 08:00:00...'' sample_world"
  have c: "cycle ?ev [] sample_world = (Returned, ?w1)"
    by (simp add: cycle_def sample_env_def)
  have k: "check_availability ?ev sample_alert ?w1 = (Raised KeyError, ?w1)"
    by (simp add: check_availability_def sample_defs pipeline_defs)
  from exception_aborts_loop [OF c k, of "[sample_alert\<lparr>name := Some (Some ''Second'')\<rparr>]"
      "[sample_env (sample_http [sample_entry ''Riviera'' ''Studio'' ''Full'']) True]"] c k
  show ?thesis
    by simp
qed

text \<open>
  Claim C2 as written fails: with the service unreachable for the first alert,
  \<open>requests.get\<close> raises, the second alert of the cycle is never processed (its row,
  which its own run would write, stays absent) and the loop is over.
\<close>

theorem scheduler_loop_counterexample:
  "run_alerts
     (sample_env (failing_http (url_of ''20250301'' ''20250305'')
        [sample_entry ''Riviera'' ''Studio'' ''Full'']) True)
     [sample_alert,
      sample_alert\<lparr>name := Some (Some ''Second''), start_date := ''2025-04-10'', end_date := ''2025-04-10''\<rparr>]
     sample_world
     = (Raised ConnectionError, sample_world)
   \<and> fst (main_loop
       [sample_env (failing_http (url_of ''20250301'' ''20250305'')
          [sample_entry ''Riviera'' ''Studio'' ''Full'']) True,
        sample_env (sample_http [sample_entry ''Riviera'' ''Studio'' ''Full'']) True]
       [sample_alert,
        sample_alert\<lparr>name := Some (Some ''Second''), start_date := ''2025-04-10'', end_date := ''2025-04-10''\<rparr>]
       sample_world)
     = Aborted ConnectionError
   \<and> db (snd (check_availability
       (sample_env (failing_http (url_of ''20250301'' ''20250305'')
          [sample_entry ''Riviera'' ''Studio'' ''Full'']) True)
       (sample_alert\<lparr>name := Some (Some ''Second''), start_date := ''2025-04-10'', end_date := ''2025-04-10''\<rparr>)
       sample_world)) ''Second'' = Some ''Riviera Studio;''
   \<and> db sample_world ''Second'' = None"
  by (simp add: cycle_def detector_defs sample_defs pipeline_defs Let_def)


end
